theory Spec2Isabelle
  imports Main "HOL-Library.AList" "HOL-Library.Multiset"
begin

section \<open>JSON values and Python exceptions\<close>

text \<open>
  The documents handled by \<^verbatim>\<open>gui/main.py\<close> are whatever \<^verbatim>\<open>json.load\<close> returns.
  A JSON object is a Python dict: an association list in insertion order, read with
  \<open>map_of\<close> and written with \<open>AList.update\<close> (which replaces in place or appends at
  the end, as a dict does). Numbers are never inspected by the code; they are kept as
  integers.
\<close>

datatype json =
    JNull
  | JBool bool
  | JNum int
  | JStr string
  | JArr "json list"
  | JObj "(string \<times> json) list"

type_synonym dict = "(string \<times> json) list"

text \<open>
  \<^verbatim>\<open>HTTPException(status_code, detail)\<close> is what the handlers raise themselves.
  \<open>AttributeError\<close> and \<open>TypeError\<close> are what Python raises when a document
  does not have the shape a handler assumes, and \<open>OSError\<close> what \<^verbatim>\<open>open\<close> raises
  when the operating system refuses a file. No handler catches any of them.
\<close>

datatype error =
    HTTPException (status_code: nat) (detail: string)
  | AttributeError
  | TypeError
  | OSError

text \<open>\<^verbatim>\<open>d.get(k)\<close> on a dict: the value, or \<^verbatim>\<open>None\<close>.\<close>

definition dict_get :: "dict \<Rightarrow> string \<Rightarrow> json" where
  "dict_get d k = (case map_of d k of None \<Rightarrow> JNull | Some v \<Rightarrow> v)"

text \<open>\<^verbatim>\<open>x.get(k)\<close> on any JSON value: only a dict has the method.\<close>

definition py_get :: "json \<Rightarrow> string \<Rightarrow> error + json" where
  "py_get x k = (case x of JObj d \<Rightarrow> Inr (dict_get d k) | _ \<Rightarrow> Inl AttributeError)"

text \<open>\<^verbatim>\<open>x.get(k, [])\<close> on any JSON value.\<close>

definition py_get_list :: "json \<Rightarrow> string \<Rightarrow> error + json" where
  "py_get_list x k =
     (case x of
        JObj d \<Rightarrow> Inr (case map_of d k of None \<Rightarrow> JArr [] | Some v \<Rightarrow> v)
      | _ \<Rightarrow> Inl AttributeError)"

text \<open>
  Iterating a JSON value (\<^verbatim>\<open>for f in x\<close>): a list gives its elements, a dict its
  keys, a string its characters; \<^verbatim>\<open>None\<close>, booleans and numbers are not iterable.
\<close>

definition py_iter :: "json \<Rightarrow> error + json list" where
  "py_iter x =
     (case x of
        JArr xs \<Rightarrow> Inr xs
      | JObj d \<Rightarrow> Inr (map (\<lambda>kv. JStr (fst kv)) d)
      | JStr s \<Rightarrow> Inr (map (\<lambda>c. JStr [c]) s)
      | _ \<Rightarrow> Inl TypeError)"

text \<open>An \<^verbatim>\<open>Optional[str]\<close> placed in a dict.\<close>

definition opt_str :: "string option \<Rightarrow> json" where
  "opt_str x = (case x of None \<Rightarrow> JNull | Some s \<Rightarrow> JStr s)"

section \<open>Agent state and audit log\<close>

text \<open>
  The global \<^verbatim>\<open>agent_state\<close> dict has a fixed set of keys. The status is a string
  (\<^verbatim>\<open>idle\<close>, \<^verbatim>\<open>running\<close>, \<^verbatim>\<open>paused\<close>, \<^verbatim>\<open>error\<close>). Timestamps are the ISO strings
  returned by \<^verbatim>\<open>datetime.now(timezone.utc).isoformat()\<close>; each clock reading is an
  argument of the function that makes it.
\<close>

record agent_state =
  status :: string
  current_role :: "string option"
  current_feature :: "string option"
  started_at :: "string option"
  logs :: "json list"
  audit_log :: "json list"

definition initial_agent_state :: agent_state where
  "initial_agent_state =
     \<lparr>status = ''idle'', current_role = None, current_feature = None,
      started_at = None, logs = [], audit_log = []\<rparr>"

text \<open>Python's \<^verbatim>\<open>xs[-100:]\<close>: the last 100 elements, or all of a shorter list.\<close>

definition last100 :: "'a list \<Rightarrow> 'a list" where
  "last100 xs = drop (length xs - 100) xs"

definition audit_entry :: "string \<Rightarrow> string \<Rightarrow> dict \<Rightarrow> json" where
  "audit_entry now act details =
     JObj [(''timestamp'', JStr now), (''action'', JStr act), (''details'', JObj details)]"

definition add_audit_log :: "string \<Rightarrow> string \<Rightarrow> dict \<Rightarrow> agent_state \<Rightarrow> agent_state" where
  "add_audit_log now act details s =
     (let s1 = s\<lparr>audit_log := audit_log s @ [audit_entry now act details]\<rparr>
      in if length (audit_log s1) > 100
         then s1\<lparr>audit_log := last100 (audit_log s1)\<rparr>
         else s1)"

text \<open>
  A sequence of append operations: each element is the clock reading, the action and
  the details of one call of \<open>add_audit_log\<close>.
\<close>

fun add_audit_logs :: "(string \<times> string \<times> dict) list \<Rightarrow> agent_state \<Rightarrow> agent_state" where
  "add_audit_logs [] s = s"
| "add_audit_logs ((now, act, details) # es) s = add_audit_logs es (add_audit_log now act details s)"

definition entry_of :: "string \<times> string \<times> dict \<Rightarrow> json" where
  "entry_of e = (case e of (now, act, details) \<Rightarrow> audit_entry now act details)"

text \<open>\<^verbatim>\<open>GET /api/audit-log\<close>: the snapshot is the current list.\<close>

definition get_audit_log :: "agent_state \<Rightarrow> json list" where
  "get_audit_log s = audit_log s"

section \<open>Agent control\<close>

record AgentControl =
  action :: string
  role :: "string option"
  feature_id :: "string option"

text \<open>
  \<open>control_agent t1 t2 control s\<close>: \<open>t1\<close> and \<open>t2\<close> are the first and the second
  clock reading made during the call (only \<^verbatim>\<open>start\<close> makes two). The result is the
  response or the raised exception, together with the agent state after the call.
\<close>

definition control_agent ::
  "string \<Rightarrow> string \<Rightarrow> AgentControl \<Rightarrow> agent_state \<Rightarrow> (error + json) \<times> agent_state" where
  "control_agent t1 t2 control s =
     (if action control = ''start'' then
        (let s1 = s\<lparr>status := ''running'',
                     current_role := role control,
                     current_feature := feature_id control,
                     started_at := Some t1\<rparr>;
             s2 = add_audit_log t2 ''agent_started''
                    [(''role'', opt_str (role control)),
                     (''feature_id'', opt_str (feature_id control))] s1
         in (Inr (JObj [(''status'', JStr (status s2))]), s2))
      else if action control = ''pause'' then
        (if status s \<noteq> ''running'' then (Inl (HTTPException 400 ''Agent not running''), s)
         else
           (let s1 = s\<lparr>status := ''paused''\<rparr>;
                s2 = add_audit_log t1 ''agent_paused'' [] s1
            in (Inr (JObj [(''status'', JStr (status s2))]), s2)))
      else if action control = ''resume'' then
        (if status s \<noteq> ''paused'' then (Inl (HTTPException 400 ''Agent not paused''), s)
         else
           (let s1 = s\<lparr>status := ''running''\<rparr>;
                s2 = add_audit_log t1 ''agent_resumed'' [] s1
            in (Inr (JObj [(''status'', JStr (status s2))]), s2)))
      else if action control = ''stop'' then
        (let s1 = s\<lparr>status := ''idle'', current_role := None, current_feature := None\<rparr>;
             s2 = add_audit_log t1 ''agent_stopped'' [] s1
         in (Inr (JObj [(''status'', JStr (status s2))]), s2))
      else (Inl (HTTPException 400 ''Invalid action''), s))"

section \<open>Persisted documents\<close>

text \<open>
  The harness directory maps a file name to the document stored under it. A file that
  exists holds the JSON value that \<^verbatim>\<open>json.load\<close> reads from it; \<open>save_json_file\<close>
  is the only operation that writes, so a result with the same \<open>files\<close> means that
  nothing was written. \<open>load_json_file\<close> and \<open>save_json_file\<close> are the load and the
  save on a file system that lets every file be opened; the fallible ones, and the
  handlers with them, follow in their own section.
\<close>

type_synonym harness_dir = "string \<Rightarrow> json option"

definition load_json_file :: "string \<Rightarrow> harness_dir \<Rightarrow> json" where
  "load_json_file filename d = (case d filename of Some doc \<Rightarrow> doc | None \<Rightarrow> JObj [])"

definition save_json_file :: "string \<Rightarrow> json \<Rightarrow> harness_dir \<Rightarrow> harness_dir" where
  "save_json_file filename data d = d(filename \<mapsto> data)"

text \<open>The process-wide state a task handler can touch: the agent state and the files.\<close>

record world =
  agent :: agent_state
  files :: harness_dir

section \<open>Task queue\<close>

text \<open>
  The request models. \<open>task_feature_id\<close> is the field \<^verbatim>\<open>feature_id\<close> of
  \<^verbatim>\<open>TaskCreate\<close> and \<open>new_status\<close> is the field \<^verbatim>\<open>status\<close> of \<^verbatim>\<open>TaskUpdate\<close>
  (renamed because \<open>AgentControl\<close> and \<open>agent_state\<close> own these names).
\<close>

record TaskCreate =
  task_feature_id :: string
  description :: "string option"
  priority :: "string option"

record TaskUpdate =
  new_status :: string

text \<open>The comprehension \<^verbatim>\<open>[f.get("id") for f in ...]\<close>.\<close>

fun feature_ids_of :: "json list \<Rightarrow> error + json list" where
  "feature_ids_of [] = Inr []"
| "feature_ids_of (f # fs) =
     (case py_get f ''id'' of
        Inl e \<Rightarrow> Inl e
      | Inr i \<Rightarrow> (case feature_ids_of fs of Inl e \<Rightarrow> Inl e | Inr ids \<Rightarrow> Inr (i # ids)))"

definition new_task_of :: "string \<Rightarrow> TaskCreate \<Rightarrow> json" where
  "new_task_of now task =
     JObj [(''feature_id'', JStr (task_feature_id task)),
           (''status'', JStr ''pending''),
           (''created_at'', JStr now),
           (''priority'', opt_str (priority task))]"

text \<open>
  \<open>create_task t1 t2 task w\<close>: \<open>t1\<close> is the clock reading stored in the task and
  \<open>t2\<close> the one stored in the audit entry. An exception leaves the world as it was:
  every raise comes before the save.
\<close>

definition create_task ::
  "string \<Rightarrow> string \<Rightarrow> TaskCreate \<Rightarrow> world \<Rightarrow> (error + json) \<times> world" where
  "create_task t1 t2 task w =
     (let queue = load_json_file ''codex-task-queue.json'' (files w);
          features = load_json_file ''codex-features.json'' (files w)
      in case py_get_list features ''features'' of
           Inl e \<Rightarrow> (Inl e, w)
         | Inr fl \<Rightarrow>
        (case py_iter fl of
           Inl e \<Rightarrow> (Inl e, w)
         | Inr fs \<Rightarrow>
        (case feature_ids_of fs of
           Inl e \<Rightarrow> (Inl e, w)
         | Inr feature_ids \<Rightarrow>
        if JStr (task_feature_id task) \<notin> set feature_ids
        then (Inl (HTTPException 404 ''Feature not found''), w)
        else
          (let new_task = new_task_of t1 task
           in case queue of
                JObj q \<Rightarrow>
                  (let q1 = (if map_of q ''queue'' = None
                             then AList.update ''queue'' (JArr []) q else q)
                   in case dict_get q1 ''queue'' of
                        JArr ts \<Rightarrow>
                          (let q2 = AList.update ''queue'' (JArr (ts @ [new_task])) q1;
                               w1 = w\<lparr>files :=
                                      save_json_file ''codex-task-queue.json'' (JObj q2) (files w)\<rparr>;
                               w2 = w1\<lparr>agent :=
                                      add_audit_log t2 ''task_created''
                                        [(''feature_id'', JStr (task_feature_id task))] (agent w1)\<rparr>
                           in (Inr (JObj [(''status'', JStr ''created''), (''task'', new_task)]), w2))
                      | _ \<Rightarrow> (Inl AttributeError, w))
              | _ \<Rightarrow> (Inl TypeError, w)))))"

text \<open>
  The loop of \<open>update_task\<close> over the tasks: the first task whose \<^verbatim>\<open>feature_id\<close>
  matches gets the new status and \<^verbatim>\<open>updated_at\<close>, and the loop returns there with the
  list as mutated, the old status and the updated task. \<open>None\<close> is the loop running
  to its end.
\<close>

definition set_status :: "string \<Rightarrow> string \<Rightarrow> dict \<Rightarrow> dict" where
  "set_status st now t =
     AList.update ''updated_at'' (JStr now) (AList.update ''status'' (JStr st) t)"

fun update_loop ::
  "string \<Rightarrow> string \<Rightarrow> string \<Rightarrow> json list \<Rightarrow> error + (json list \<times> json \<times> json) option" where
  "update_loop fid st now [] = Inr None"
| "update_loop fid st now (t # ts) =
     (case t of
        JObj d \<Rightarrow>
          (if dict_get d ''feature_id'' = JStr fid
           then Inr (Some (JObj (set_status st now d) # ts, dict_get d ''status'',
                           JObj (set_status st now d)))
           else (case update_loop fid st now ts of
                   Inl e \<Rightarrow> Inl e
                 | Inr None \<Rightarrow> Inr None
                 | Inr (Some (ts', old, t')) \<Rightarrow> Inr (Some (t # ts', old, t'))))
      | _ \<Rightarrow> Inl AttributeError)"

text \<open>
  \<open>update_task t1 t2 fid update w\<close>: \<open>t1\<close> is the clock reading stored in
  \<^verbatim>\<open>updated_at\<close> and \<open>t2\<close> the one stored in the audit entry. A task can only be
  found when the document is a dict whose \<^verbatim>\<open>queue\<close> is a list, and the task mutated
  is then an element of that list.
\<close>

definition update_task ::
  "string \<Rightarrow> string \<Rightarrow> string \<Rightarrow> TaskUpdate \<Rightarrow> world \<Rightarrow> (error + json) \<times> world" where
  "update_task t1 t2 fid update w =
     (let queue = load_json_file ''codex-task-queue.json'' (files w)
      in case py_get_list queue ''queue'' of
           Inl e \<Rightarrow> (Inl e, w)
         | Inr ql \<Rightarrow>
        (case py_iter ql of
           Inl e \<Rightarrow> (Inl e, w)
         | Inr ts \<Rightarrow>
        (case update_loop fid (new_status update) t1 ts of
           Inl e \<Rightarrow> (Inl e, w)
         | Inr None \<Rightarrow> (Inl (HTTPException 404 ''Task not found''), w)
         | Inr (Some (ts', old_status, task')) \<Rightarrow>
             (let queue' = (case queue of
                              JObj q \<Rightarrow> JObj (AList.update ''queue'' (JArr ts') q)
                            | _ \<Rightarrow> queue);
                  w1 = w\<lparr>files := save_json_file ''codex-task-queue.json'' queue' (files w)\<rparr>;
                  w2 = w1\<lparr>agent :=
                         add_audit_log t2 ''task_updated''
                           [(''feature_id'', JStr fid),
                            (''old_status'', old_status),
                            (''new_status'', JStr (new_status update))] (agent w1)\<rparr>
              in (Inr (JObj [(''status'', JStr ''updated''), (''task'', task')]), w2)))))"

text \<open>
  Shapes of the two documents, for stating results. \<open>catalog_features\<close> is the list
  of features of a well-formed catalog: the file is absent or a dict, and its
  \<^verbatim>\<open>features\<close>, when present, is a list of dicts. \<open>queue_list\<close> is the list of tasks of
  a well-formed queue document: the file is absent or a dict, and its \<^verbatim>\<open>queue\<close>, when
  present, is a list.
\<close>

fun all_dicts :: "json list \<Rightarrow> bool" where
  "all_dicts [] = True"
| "all_dicts (JObj d # xs) = all_dicts xs"
| "all_dicts (_ # xs) = False"

definition catalog_features :: "harness_dir \<Rightarrow> json list option" where
  "catalog_features d =
     (case d ''codex-features.json'' of
        None \<Rightarrow> Some []
      | Some (JObj c) \<Rightarrow>
          (case map_of c ''features'' of
             None \<Rightarrow> Some []
           | Some (JArr fs) \<Rightarrow> (if all_dicts fs then Some fs else None)
           | _ \<Rightarrow> None)
      | _ \<Rightarrow> None)"

fun id_of :: "json \<Rightarrow> json" where
  "id_of (JObj d) = dict_get d ''id''"
| "id_of _ = JNull"

definition queue_list :: "harness_dir \<Rightarrow> json list option" where
  "queue_list d =
     (case d ''codex-task-queue.json'' of
        None \<Rightarrow> Some []
      | Some (JObj q) \<Rightarrow>
          (case map_of q ''queue'' of
             None \<Rightarrow> Some []
           | Some (JArr ts) \<Rightarrow> Some ts
           | _ \<Rightarrow> None)
      | _ \<Rightarrow> None)"

fun feature_id_of :: "json \<Rightarrow> json" where
  "feature_id_of (JObj d) = dict_get d ''feature_id''"
| "feature_id_of _ = JNull"

text \<open>
  \<^verbatim>\<open>create_task\<close> is a coroutine without any \<^verbatim>\<open>await\<close>: once the event loop has
  started it, it runs to its end before another handler runs. Requests that overlap are
  therefore served one after the other, in an order the event loop chooses. A list of
  calls, each with its two clock readings, is one such order; \<open>create_tasks\<close> is the
  world after the calls and \<open>responses\<close> what they return. \<open>created_of\<close> is the
  task a call creates, \<open>created_response\<close> the response of a call that succeeds and
  \<open>requested_id\<close> the feature id a call asks for.
\<close>

fun create_tasks :: "(string \<times> string \<times> TaskCreate) list \<Rightarrow> world \<Rightarrow> world" where
  "create_tasks [] w = w"
| "create_tasks ((t1, t2, task) # cs) w = create_tasks cs (snd (create_task t1 t2 task w))"

definition created_of :: "string \<times> string \<times> TaskCreate \<Rightarrow> json" where
  "created_of c = (case c of (t1, t2, task) \<Rightarrow> new_task_of t1 task)"

definition requested_id :: "string \<times> string \<times> TaskCreate \<Rightarrow> json" where
  "requested_id c = (case c of (t1, t2, task) \<Rightarrow> JStr (task_feature_id task))"

fun responses :: "(string \<times> string \<times> TaskCreate) list \<Rightarrow> world \<Rightarrow> (error + json) list" where
  "responses [] w = []"
| "responses ((t1, t2, task) # cs) w =
     fst (create_task t1 t2 task w) # responses cs (snd (create_task t1 t2 task w))"

definition created_response :: "string \<times> string \<times> TaskCreate \<Rightarrow> error + json" where
  "created_response c = Inr (JObj [(''status'', JStr ''created''), (''task'', created_of c)])"

section \<open>Task queue on a file system that can refuse a file\<close>

text \<open>
  Whether \<^verbatim>\<open>open(path, mode)\<close> succeeds is decided by the operating system
  (permissions, a missing directory): \<open>may_open m f\<close> says whether the file \<open>f\<close> of
  the harness directory can be opened in mode \<open>m\<close>. \<open>load_json_file_io\<close> opens the
  file only when it exists; \<open>save_json_file_io\<close> always opens it. A refused
  \<^verbatim>\<open>open\<close> raises \<^verbatim>\<open>OSError\<close> and leaves the file as it was.
\<close>

datatype mode = Reading | Writing

definition load_json_file_io ::
  "(mode \<Rightarrow> string \<Rightarrow> bool) \<Rightarrow> string \<Rightarrow> harness_dir \<Rightarrow> error + json" where
  "load_json_file_io may_open filename d =
     (case d filename of
        Some doc \<Rightarrow> (if may_open Reading filename then Inr doc else Inl OSError)
      | None \<Rightarrow> Inr (JObj []))"

definition save_json_file_io ::
  "(mode \<Rightarrow> string \<Rightarrow> bool) \<Rightarrow> string \<Rightarrow> json \<Rightarrow> harness_dir \<Rightarrow> error + harness_dir" where
  "save_json_file_io may_open filename data d =
     (if may_open Writing filename then Inr (d(filename \<mapsto> data)) else Inl OSError)"

text \<open>
  The two handlers with these loads and saves. The exception of a load or of the save
  leaves the handler before the audit entry is added, so the world stays as it was.
\<close>

definition create_task_io ::
  "(mode \<Rightarrow> string \<Rightarrow> bool) \<Rightarrow> string \<Rightarrow> string \<Rightarrow> TaskCreate \<Rightarrow> world
     \<Rightarrow> (error + json) \<times> world" where
  "create_task_io may_open t1 t2 task w =
     (case load_json_file_io may_open ''codex-task-queue.json'' (files w) of
        Inl e \<Rightarrow> (Inl e, w)
      | Inr queue \<Rightarrow>
     (case load_json_file_io may_open ''codex-features.json'' (files w) of
        Inl e \<Rightarrow> (Inl e, w)
      | Inr features \<Rightarrow>
     (case py_get_list features ''features'' of
        Inl e \<Rightarrow> (Inl e, w)
      | Inr fl \<Rightarrow>
     (case py_iter fl of
        Inl e \<Rightarrow> (Inl e, w)
      | Inr fs \<Rightarrow>
     (case feature_ids_of fs of
        Inl e \<Rightarrow> (Inl e, w)
      | Inr feature_ids \<Rightarrow>
     if JStr (task_feature_id task) \<notin> set feature_ids
     then (Inl (HTTPException 404 ''Feature not found''), w)
     else
       (let new_task = new_task_of t1 task
        in case queue of
             JObj q \<Rightarrow>
               (let q1 = (if map_of q ''queue'' = None
                          then AList.update ''queue'' (JArr []) q else q)
                in case dict_get q1 ''queue'' of
                     JArr ts \<Rightarrow>
                       (let q2 = AList.update ''queue'' (JArr (ts @ [new_task])) q1
                        in case save_json_file_io may_open ''codex-task-queue.json''
                                  (JObj q2) (files w) of
                             Inl e \<Rightarrow> (Inl e, w)
                           | Inr saved \<Rightarrow>
                               (let w1 = w\<lparr>files := saved\<rparr>;
                                    w2 = w1\<lparr>agent :=
                                           add_audit_log t2 ''task_created''
                                             [(''feature_id'', JStr (task_feature_id task))]
                                             (agent w1)\<rparr>
                                in (Inr (JObj [(''status'', JStr ''created''),
                                               (''task'', new_task)]), w2)))
                   | _ \<Rightarrow> (Inl AttributeError, w))
           | _ \<Rightarrow> (Inl TypeError, w)))))))"

definition update_task_io ::
  "(mode \<Rightarrow> string \<Rightarrow> bool) \<Rightarrow> string \<Rightarrow> string \<Rightarrow> string \<Rightarrow> TaskUpdate \<Rightarrow> world
     \<Rightarrow> (error + json) \<times> world" where
  "update_task_io may_open t1 t2 fid update w =
     (case load_json_file_io may_open ''codex-task-queue.json'' (files w) of
        Inl e \<Rightarrow> (Inl e, w)
      | Inr queue \<Rightarrow>
     (case py_get_list queue ''queue'' of
        Inl e \<Rightarrow> (Inl e, w)
      | Inr ql \<Rightarrow>
     (case py_iter ql of
        Inl e \<Rightarrow> (Inl e, w)
      | Inr ts \<Rightarrow>
     (case update_loop fid (new_status update) t1 ts of
        Inl e \<Rightarrow> (Inl e, w)
      | Inr None \<Rightarrow> (Inl (HTTPException 404 ''Task not found''), w)
      | Inr (Some (ts', old_status, task')) \<Rightarrow>
          (let queue' = (case queue of
                           JObj q \<Rightarrow> JObj (AList.update ''queue'' (JArr ts') q)
                         | _ \<Rightarrow> queue)
           in case save_json_file_io may_open ''codex-task-queue.json'' queue' (files w) of
                Inl e \<Rightarrow> (Inl e, w)
              | Inr saved \<Rightarrow>
                  (let w1 = w\<lparr>files := saved\<rparr>;
                       w2 = w1\<lparr>agent :=
                              add_audit_log t2 ''task_updated''
                                [(''feature_id'', JStr fid),
                                 (''old_status'', old_status),
                                 (''new_status'', JStr (new_status update))] (agent w1)\<rparr>
                   in (Inr (JObj [(''status'', JStr ''updated''), (''task'', task')]), w2)))))))"

text \<open>A load of the file does not raise: the file is absent or may be read.\<close>

definition readable :: "(mode \<Rightarrow> string \<Rightarrow> bool) \<Rightarrow> harness_dir \<Rightarrow> string \<Rightarrow> bool" where
  "readable may_open d filename = (d filename = None \<or> may_open Reading filename)"

section \<open>Log streaming\<close>

text \<open>
  \<open>event_generator\<close> is an asynchronous generator: it runs until its next \<^verbatim>\<open>yield\<close>
  or \<^verbatim>\<open>await asyncio.sleep\<close>, and other coroutines run while it is suspended there.
  Its state is the local \<^verbatim>\<open>last_idx\<close>, the place where it is suspended and the frames
  it has yielded so far. \<open>Yielded i n\<close> is the \<^verbatim>\<open>yield\<close> of \<^verbatim>\<open>log_buffer[i]\<close> inside
  \<^verbatim>\<open>for i in range(last_idx, n)\<close>; \<open>Raised\<close> is an \<^verbatim>\<open>IndexError\<close> at the read.
\<close>

datatype pc = Start | Yielded nat nat | Sleeping | Raised

record subscriber =
  last_idx :: nat
  pc :: pc
  sent :: "string list"

definition frame :: "string \<Rightarrow> string" where
  "frame l = ''data: '' @ l @ [CHR 0x0A, CHR 0x0A]"

definition event_generator_init :: subscriber where
  "event_generator_init = \<lparr>last_idx = 0, pc = Start, sent = []\<rparr>"

definition yield_at :: "nat \<Rightarrow> nat \<Rightarrow> string list \<Rightarrow> subscriber \<Rightarrow> subscriber" where
  "yield_at i n log_buffer s =
     (if i < length log_buffer
      then s\<lparr>sent := sent s @ [frame (log_buffer ! i)], pc := Yielded i n\<rparr>
      else s\<lparr>pc := Raised\<rparr>)"

definition loop_top :: "string list \<Rightarrow> subscriber \<Rightarrow> subscriber" where
  "loop_top log_buffer s =
     (if length log_buffer > last_idx s
      then yield_at (last_idx s) (length log_buffer) log_buffer s
      else s\<lparr>pc := Sleeping\<rparr>)"

text \<open>
  One resumption of the generator, up to its next suspension. The first one starts
  with the assignment \<^verbatim>\<open>last_idx = 0\<close>.
\<close>

definition resume :: "string list \<Rightarrow> subscriber \<Rightarrow> subscriber" where
  "resume log_buffer s =
     (case pc s of
        Start \<Rightarrow> loop_top log_buffer (s\<lparr>last_idx := 0\<rparr>)
      | Sleeping \<Rightarrow> loop_top log_buffer s
      | Yielded i n \<Rightarrow>
          (if Suc i < n then yield_at (Suc i) n log_buffer s
           else s\<lparr>last_idx := length log_buffer, pc := Sleeping\<rparr>)
      | Raised \<Rightarrow> s)"

text \<open>
  \<^verbatim>\<open>stream_logs\<close> returns \<^verbatim>\<open>StreamingResponse(event_generator, ...)\<close>: the content
  of the response is the function \<^verbatim>\<open>event_generator\<close> itself, not the generator
  object that the call \<^verbatim>\<open>event_generator()\<close> returns. \<open>Function\<close> is that function
  object and \<open>AsyncGenerator s\<close> a generator object in state \<open>s\<close>.
\<close>

datatype content = Function | AsyncGenerator subscriber

definition stream_logs :: content where
  "stream_logs = Function"

text \<open>
  The response sends what iterating its content yields. A generator object is resumed
  up to its next suspension; a function object is not iterable, and iterating it raises
  \<^verbatim>\<open>TypeError\<close>.
\<close>

definition iterate :: "string list \<Rightarrow> content \<Rightarrow> error + content" where
  "iterate log_buffer c =
     (case c of
        Function \<Rightarrow> Inl TypeError
      | AsyncGenerator s \<Rightarrow> Inr (AsyncGenerator (resume log_buffer s)))"

text \<open>
  Modelled from the spec: the producer of log lines. Nothing in \<^verbatim>\<open>gui/main.py\<close>
  appends to \<^verbatim>\<open>log_buffer\<close>; the spec's \<^verbatim>\<open>publish(line)\<close> appends the line to the
  in-memory sequence.
\<close>

definition publish :: "string \<Rightarrow> string list \<Rightarrow> string list" where
  "publish line log_buffer = log_buffer @ [line]"

text \<open>
  A schedule interleaves publications with the steps in which the response of one
  subscriber iterates its content; the state is the shared \<^verbatim>\<open>log_buffer\<close> and the
  content being iterated, or the exception that ended the iteration.
\<close>

datatype event = Publish string | Resume

fun step :: "event \<Rightarrow> string list \<times> (error + content) \<Rightarrow> string list \<times> (error + content)" where
  "step (Publish l) (buf, c) = (publish l buf, c)"
| "step Resume (buf, Inl e) = (buf, Inl e)"
| "step Resume (buf, Inr c) = (buf, iterate buf c)"

fun run :: "event list \<Rightarrow> string list \<times> (error + content) \<Rightarrow> string list \<times> (error + content)" where
  "run [] st = st"
| "run (e # es) st = run es (step e st)"

text \<open>The frames a subscriber has been sent.\<close>

fun received :: "error + content \<Rightarrow> string list" where
  "received (Inr (AsyncGenerator s)) = sent s"
| "received _ = []"

section \<open>A concrete world\<close>

text \<open>
  A catalog with the features F1 and F2 and a queue that holds two tasks for F2.
\<close>

definition example_queue :: "json list" where
  "example_queue =
     [JObj [(''feature_id'', JStr ''F2''), (''status'', JStr ''pending'')],
      JObj [(''feature_id'', JStr ''F2''), (''status'', JStr ''pending'')]]"

definition example_files :: harness_dir where
  "example_files =
     [''codex-features.json'' \<mapsto>
        JObj [(''features'', JArr [JObj [(''id'', JStr ''F1'')], JObj [(''id'', JStr ''F2'')]])],
      ''codex-task-queue.json'' \<mapsto> JObj [(''queue'', JArr example_queue)]]"

definition example_world :: world where
  "example_world = \<lparr>agent = initial_agent_state, files = example_files\<rparr>"

text \<open>The same world without the queue file.\<close>

definition example_world_no_queue :: world where
  "example_world_no_queue =
     example_world\<lparr>files := (files example_world)(''codex-task-queue.json'' := None)\<rparr>"

text \<open>Two calls of \<open>create_task\<close>, for F1 and for F2.\<close>

definition example_calls :: "(string \<times> string \<times> TaskCreate) list" where
  "example_calls =
     [(''t1'', ''t2'', \<lparr>task_feature_id = ''F1'', description = None, priority = Some ''normal''\<rparr>),
      (''t3'', ''t4'', \<lparr>task_feature_id = ''F2'', description = None, priority = Some ''high''\<rparr>)]"

section \<open>The audit log is bounded\<close>

lemma last100_short: "length xs \<le> 100 \<Longrightarrow> last100 xs = xs"
  by (simp add: last100_def)

lemma length_last100: "length (last100 xs) = min (length xs) 100"
  by (simp add: last100_def)

lemma last100_append_last100: "last100 (last100 xs @ ys) = last100 (xs @ ys)"
proof (cases "length xs \<le> 100")
  case True
  then show ?thesis by (simp add: last100_short)
next
  case False
  then have "length xs + length ys - (length xs - 100 + 100) + (length xs - 100)
      = length xs + length ys - 100"
    by arith
  then show ?thesis by (simp add: last100_def)
qed

lemma entry_of_triple: "entry_of (now, act, details) = audit_entry now act details"
  by (simp add: entry_of_def)

lemma audit_log_add_audit_log:
  "audit_log (add_audit_log now act details s) = last100 (audit_log s @ [audit_entry now act details])"
  by (simp add: add_audit_log_def Let_def last100_def)

lemma audit_log_add_audit_logs:
  "es \<noteq> [] \<Longrightarrow> audit_log (add_audit_logs es s) = last100 (audit_log s @ map entry_of es)"
proof (induction es arbitrary: s)
  case Nil
  then show ?case by simp
next
  case (Cons e es)
  obtain now act details where e: "e = (now, act, details)"
    by (cases e) auto
  show ?case
  proof (cases "es = []")
    case True
    then show ?thesis
      by (simp add: e audit_log_add_audit_log entry_of_triple)
  next
    case False
    then have "audit_log (add_audit_logs (e # es) s)
        = last100 (last100 (audit_log s @ [audit_entry now act details]) @ map entry_of es)"
      by (simp add: e Cons.IH audit_log_add_audit_log)
    then show ?thesis
      by (simp add: e last100_append_last100 entry_of_triple)
  qed
qed

text \<open>
  C4. After any sequence of calls of \<open>add_audit_log\<close> on a log of at most 100
  entries, the log holds at most 100 entries; after more than 100 calls the snapshot is
  exactly the entries of the last 100 calls, in the order of the calls: the oldest are
  evicted first.
\<close>

theorem audit_log_bounded_fifo:
  "(length (audit_log s) \<le> 100 \<longrightarrow> length (get_audit_log (add_audit_logs es s)) \<le> 100) \<and>
   (100 < length es \<longrightarrow>
      get_audit_log (add_audit_logs es s) = drop (length es - 100) (map entry_of es))"
proof (cases "es = []")
  case True
  then show ?thesis by (simp add: get_audit_log_def)
next
  case False
  then have a: "get_audit_log (add_audit_logs es s) = last100 (audit_log s @ map entry_of es)"
    by (simp add: get_audit_log_def audit_log_add_audit_logs)
  have "100 < length es \<Longrightarrow>
      last100 (audit_log s @ map entry_of es) = drop (length es - 100) (map entry_of es)"
    by (simp add: last100_def)
  with a show ?thesis by (simp add: length_last100)
qed

theorem audit_log_bounded_fifo_witness:
  "length (audit_log initial_agent_state) \<le> 100 \<and>
   100 < length (replicate 101 (''t'', ''a'', [])) \<and>
   length (get_audit_log (add_audit_logs (replicate 101 (''t'', ''a'', [])) initial_agent_state))
     \<le> 100 \<and>
   get_audit_log (add_audit_logs (replicate 101 (''t'', ''a'', [])) initial_agent_state)
     = replicate 100 (audit_entry ''t'' ''a'' [])"
  using audit_log_bounded_fifo [of initial_agent_state "replicate 101 (''t'', ''a'', [])"]
  by (simp add: initial_agent_state_def entry_of_triple)

section \<open>Agent lifecycle\<close>

lemma control_agent_pause_rejected:
  "action c = ''pause'' \<Longrightarrow> status s \<noteq> ''running'' \<Longrightarrow>
   control_agent t1 t2 c s = (Inl (HTTPException 400 ''Agent not running''), s)"
  by (simp add: control_agent_def)

lemma control_agent_resume_rejected:
  "action c = ''resume'' \<Longrightarrow> status s \<noteq> ''paused'' \<Longrightarrow>
   control_agent t1 t2 c s = (Inl (HTTPException 400 ''Agent not paused''), s)"
  by (simp add: control_agent_def)

lemma control_agent_unknown_action:
  "action c \<notin> {''start'', ''pause'', ''resume'', ''stop''} \<Longrightarrow>
   control_agent t1 t2 c s = (Inl (HTTPException 400 ''Invalid action''), s)"
  by (simp add: control_agent_def)

lemma control_agent_stop:
  "action c = ''stop'' \<Longrightarrow>
   control_agent t1 t2 c s =
     (Inr (JObj [(''status'', JStr ''idle'')]),
      add_audit_log t1 ''agent_stopped'' []
        (s\<lparr>status := ''idle'', current_role := None, current_feature := None\<rparr>))"
  by (simp add: control_agent_def add_audit_log_def Let_def)

lemma add_audit_log_fields:
  "status (add_audit_log now act details s) = status s"
  "current_role (add_audit_log now act details s) = current_role s"
  "current_feature (add_audit_log now act details s) = current_feature s"
  "started_at (add_audit_log now act details s) = started_at s"
  by (simp_all add: add_audit_log_def Let_def)

text \<open>
  C3. In every agent state whose status is not \<^verbatim>\<open>running\<close>, \<^verbatim>\<open>pause\<close> raises the
  400 \<^verbatim>\<open>Agent not running\<close>; in every state whose status is not \<^verbatim>\<open>paused\<close>,
  \<^verbatim>\<open>resume\<close> raises the 400 \<^verbatim>\<open>Agent not paused\<close>. In both cases the agent state
  after the call is the state before it: no field changes and the audit log, which is
  part of the state, gets no entry.
\<close>

theorem pause_resume_rejected:
  "(action c = ''pause'' \<and> status s \<noteq> ''running'' \<longrightarrow>
      control_agent t1 t2 c s = (Inl (HTTPException 400 ''Agent not running''), s)) \<and>
   (action c = ''resume'' \<and> status s \<noteq> ''paused'' \<longrightarrow>
      control_agent t1 t2 c s = (Inl (HTTPException 400 ''Agent not paused''), s))"
  by (simp add: control_agent_pause_rejected control_agent_resume_rejected)

theorem pause_resume_rejected_witness:
  "status initial_agent_state \<noteq> ''running'' \<and> status initial_agent_state \<noteq> ''paused'' \<and>
   control_agent ''t1'' ''t2'' \<lparr>action = ''pause'', role = None, feature_id = None\<rparr>
       initial_agent_state
     = (Inl (HTTPException 400 ''Agent not running''), initial_agent_state) \<and>
   control_agent ''t1'' ''t2'' \<lparr>action = ''resume'', role = None, feature_id = None\<rparr>
       initial_agent_state
     = (Inl (HTTPException 400 ''Agent not paused''), initial_agent_state)"
  using pause_resume_rejected [of "\<lparr>action = ''pause'', role = None, feature_id = None\<rparr>"
          initial_agent_state "''t1''" "''t2''"]
        pause_resume_rejected [of "\<lparr>action = ''resume'', role = None, feature_id = None\<rparr>"
          initial_agent_state "''t1''" "''t2''"]
  by (simp add: initial_agent_state_def)

text \<open>
  C2. \<^verbatim>\<open>stop\<close> in a running agent state with a role, a feature and a start time:
  the call succeeds, the status becomes \<^verbatim>\<open>idle\<close>, the role and the feature are
  cleared and an \<^verbatim>\<open>agent_stopped\<close> entry is appended, but \<^verbatim>\<open>started_at\<close> keeps
  the time of the last start.
\<close>

theorem stop_keeps_started_at:
  "control_agent ''t1'' ''t2'' \<lparr>action = ''stop'', role = None, feature_id = None\<rparr>
     \<lparr>status = ''running'', current_role = Some ''coder'', current_feature = Some ''F1'',
      started_at = Some ''t0'', logs = [], audit_log = []\<rparr>
   = (Inr (JObj [(''status'', JStr ''idle'')]),
      \<lparr>status = ''idle'', current_role = None, current_feature = None,
       started_at = Some ''t0'', logs = [],
       audit_log = [audit_entry ''t1'' ''agent_stopped'' []]\<rparr>)"
  by (simp add: control_agent_def add_audit_log_def Let_def)

text \<open>The same in every state: \<^verbatim>\<open>stop\<close> always succeeds and never touches \<^verbatim>\<open>started_at\<close>.\<close>

lemma stop_clears_role_and_feature_only:
  assumes "action c = ''stop''"
  shows "fst (control_agent t1 t2 c s) = Inr (JObj [(''status'', JStr ''idle'')])"
    and "status (snd (control_agent t1 t2 c s)) = ''idle''"
    and "current_role (snd (control_agent t1 t2 c s)) = None"
    and "current_feature (snd (control_agent t1 t2 c s)) = None"
    and "started_at (snd (control_agent t1 t2 c s)) = started_at s"
    and "audit_log (snd (control_agent t1 t2 c s))
           = last100 (audit_log s @ [audit_entry t1 ''agent_stopped'' []])"
  using assms
  by (simp_all add: control_agent_stop add_audit_log_fields audit_log_add_audit_log)

section \<open>Task creation\<close>

lemma feature_ids_of_all_dicts: "all_dicts fs \<Longrightarrow> feature_ids_of fs = Inr (map id_of fs)"
  by (induction fs rule: all_dicts.induct) (simp_all add: py_get_def)

lemma create_task_not_found:
  assumes "catalog_features (files w) = Some fs"
      and "JStr (task_feature_id task) \<notin> id_of ` set fs"
  shows "create_task t1 t2 task w = (Inl (HTTPException 404 ''Feature not found''), w)"
  using assms
  by (auto simp: create_task_def catalog_features_def load_json_file_def py_get_list_def
        py_iter_def feature_ids_of_all_dicts Let_def
      split: option.splits json.splits if_splits)

lemma create_task_found:
  assumes "catalog_features (files w) = Some fs"
      and "JStr (task_feature_id task) \<in> id_of ` set fs"
      and "queue_list (files w) = Some ts"
      and "load_json_file ''codex-task-queue.json'' (files w) = JObj q"
  shows "create_task t1 t2 task w =
           (Inr (JObj [(''status'', JStr ''created''), (''task'', new_task_of t1 task)]),
            w\<lparr>files := (files w)(''codex-task-queue.json'' \<mapsto>
                          JObj (AList.update ''queue'' (JArr (ts @ [new_task_of t1 task])) q)),
              agent := add_audit_log t2 ''task_created''
                         [(''feature_id'', JStr (task_feature_id task))] (agent w)\<rparr>)"
  using assms
  by (auto simp: create_task_def catalog_features_def load_json_file_def py_get_list_def
        py_iter_def feature_ids_of_all_dicts Let_def queue_list_def save_json_file_def dict_get_def
        update_conv'
      split: option.splits json.splits if_splits)

lemma queue_list_saved:
  "queue_list (d(''codex-task-queue.json'' \<mapsto> JObj (AList.update ''queue'' (JArr ts) q))) = Some ts"
  by (simp add: queue_list_def update_conv')

lemma new_task_fields:
  "py_get (new_task_of now task) ''status'' = Inr (JStr ''pending'')"
  "py_get (new_task_of now task) ''created_at'' = Inr (JStr now)"
  by (simp_all add: new_task_of_def py_get_def dict_get_def)

text \<open>
  C5. With a well-formed feature catalog, read from the files at the time of the call:
  \<open>create_task\<close> for a feature id that the catalog does not list raises the 404
  \<^verbatim>\<open>Feature not found\<close> and leaves the world, hence the persisted queue document,
  as it was. For a feature id that the catalog lists and a well-formed queue document it
  succeeds: the task built has status \<^verbatim>\<open>pending\<close> and the current timestamp as
  \<^verbatim>\<open>created_at\<close>, it is appended to the document's queue, the whole document is
  saved with its other keys kept, and the response carries the created task.
\<close>

theorem create_task_validates_feature:
  assumes "catalog_features (files w) = Some fs"
  shows "(JStr (task_feature_id task) \<notin> id_of ` set fs \<longrightarrow>
            create_task t1 t2 task w = (Inl (HTTPException 404 ''Feature not found''), w)) \<and>
         (JStr (task_feature_id task) \<in> id_of ` set fs \<and>
          queue_list (files w) = Some ts \<and>
          load_json_file ''codex-task-queue.json'' (files w) = JObj q \<longrightarrow>
            create_task t1 t2 task w =
              (Inr (JObj [(''status'', JStr ''created''), (''task'', new_task_of t1 task)]),
               w\<lparr>files := (files w)(''codex-task-queue.json'' \<mapsto>
                      JObj (AList.update ''queue'' (JArr (ts @ [new_task_of t1 task])) q)),
                 agent := add_audit_log t2 ''task_created''
                            [(''feature_id'', JStr (task_feature_id task))] (agent w)\<rparr>) \<and>
            queue_list ((files w)(''codex-task-queue.json'' \<mapsto>
                      JObj (AList.update ''queue'' (JArr (ts @ [new_task_of t1 task])) q)))
              = Some (ts @ [new_task_of t1 task]) \<and>
            py_get (new_task_of t1 task) ''status'' = Inr (JStr ''pending'') \<and>
            py_get (new_task_of t1 task) ''created_at'' = Inr (JStr t1))"
  using assms
  by (simp add: create_task_not_found create_task_found queue_list_saved new_task_fields)

theorem create_task_validates_feature_witness:
  "catalog_features (files example_world)
     = Some [JObj [(''id'', JStr ''F1'')], JObj [(''id'', JStr ''F2'')]] \<and>
   create_task ''t1'' ''t2'' \<lparr>task_feature_id = ''F9'', description = None, priority = Some ''normal''\<rparr>
       example_world
     = (Inl (HTTPException 404 ''Feature not found''), example_world) \<and>
   fst (create_task ''t1'' ''t2''
       \<lparr>task_feature_id = ''F1'', description = None, priority = Some ''normal''\<rparr> example_world)
     = Inr (JObj [(''status'', JStr ''created''),
                  (''task'', JObj [(''feature_id'', JStr ''F1''), (''status'', JStr ''pending''),
                                   (''created_at'', JStr ''t1''), (''priority'', JStr ''normal'')])])"
proof -
  have c: "catalog_features (files example_world)
     = Some [JObj [(''id'', JStr ''F1'')], JObj [(''id'', JStr ''F2'')]]"
    by (simp add: example_world_def example_files_def catalog_features_def)
  have q: "queue_list (files example_world) = Some example_queue"
    by (simp add: example_world_def example_files_def queue_list_def)
  have l: "load_json_file ''codex-task-queue.json'' (files example_world)
     = JObj [(''queue'', JArr example_queue)]"
    by (simp add: example_world_def example_files_def load_json_file_def)
  show ?thesis
    using create_task_validates_feature [OF c,
        of "\<lparr>task_feature_id = ''F9'', description = None, priority = Some ''normal''\<rparr>"
           "''t1''" "''t2''"]
      create_task_validates_feature [OF c,
        of "\<lparr>task_feature_id = ''F1'', description = None, priority = Some ''normal''\<rparr>"
           "''t1''" "''t2''", simplified q l]
    by (simp add: c dict_get_def new_task_of_def opt_str_def)
qed

lemma create_task_ignores_description:
  "create_task t1 t2 (task\<lparr>description := d\<rparr>) w = create_task t1 t2 task w"
proof -
  have f: "task_feature_id (task\<lparr>description := d\<rparr>) = task_feature_id task"
    by simp
  have n: "new_task_of t1 (task\<lparr>description := d\<rparr>) = new_task_of t1 task"
    by (simp add: new_task_of_def)
  show ?thesis
    unfolding create_task_def f n ..
qed

lemma create_task_success_shape:
  assumes "create_task t1 t2 task w = (Inr r, w')"
  shows "r = JObj [(''status'', JStr ''created''), (''task'', new_task_of t1 task)] \<and>
         (\<exists>q ts. files w' ''codex-task-queue.json'' = Some (JObj q) \<and>
                 map_of q ''queue'' = Some (JArr (ts @ [new_task_of t1 task])))"
  using assms
  by (auto simp: create_task_def Let_def save_json_file_def update_conv'
      split: sum.splits if_splits json.splits)

text \<open>
  C9. The result of \<open>create_task\<close> does not depend on the \<^verbatim>\<open>description\<close> of the
  request: the request model accepts it and the handler never reads it. Whenever the
  call succeeds, the task in the response is the task appended to the saved queue, and
  its keys are exactly \<^verbatim>\<open>feature_id\<close>, \<^verbatim>\<open>status\<close>, \<^verbatim>\<open>created_at\<close> and
  \<^verbatim>\<open>priority\<close>.
\<close>

theorem created_task_fields:
  "create_task t1 t2 (task\<lparr>description := d\<rparr>) w = create_task t1 t2 task w \<and>
   (create_task t1 t2 task w = (Inr r, w') \<longrightarrow>
      (\<exists>fields q ts.
          r = JObj [(''status'', JStr ''created''), (''task'', JObj fields)] \<and>
          map fst fields = [''feature_id'', ''status'', ''created_at'', ''priority''] \<and>
          files w' ''codex-task-queue.json'' = Some (JObj q) \<and>
          map_of q ''queue'' = Some (JArr (ts @ [JObj fields]))))"
proof (intro conjI impI)
  show "create_task t1 t2 (task\<lparr>description := d\<rparr>) w = create_task t1 t2 task w"
    by (rule create_task_ignores_description)
next
  assume "create_task t1 t2 task w = (Inr r, w')"
  from create_task_success_shape [OF this]
  obtain q ts where r: "r = JObj [(''status'', JStr ''created''), (''task'', new_task_of t1 task)]"
    and f: "files w' ''codex-task-queue.json'' = Some (JObj q)"
    and m: "map_of q ''queue'' = Some (JArr (ts @ [new_task_of t1 task]))"
    by blast
  have "new_task_of t1 task =
      JObj [(''feature_id'', JStr (task_feature_id task)), (''status'', JStr ''pending''),
            (''created_at'', JStr t1), (''priority'', opt_str (priority task))]"
    by (simp add: new_task_of_def)
  with r f m show "\<exists>fields q ts.
          r = JObj [(''status'', JStr ''created''), (''task'', JObj fields)] \<and>
          map fst fields = [''feature_id'', ''status'', ''created_at'', ''priority''] \<and>
          files w' ''codex-task-queue.json'' = Some (JObj q) \<and>
          map_of q ''queue'' = Some (JArr (ts @ [JObj fields]))"
    by simp
qed

theorem created_task_fields_witness:
  "create_task ''t1'' ''t2''
       \<lparr>task_feature_id = ''F1'', description = Some ''text'', priority = Some ''high''\<rparr>
       example_world
     = create_task ''t1'' ''t2''
       \<lparr>task_feature_id = ''F1'', description = None, priority = Some ''high''\<rparr>
       example_world \<and>
   fst (create_task ''t1'' ''t2''
       \<lparr>task_feature_id = ''F1'', description = Some ''text'', priority = Some ''high''\<rparr>
       example_world)
     = Inr (JObj [(''status'', JStr ''created''),
                  (''task'', JObj [(''feature_id'', JStr ''F1''), (''status'', JStr ''pending''),
                                   (''created_at'', JStr ''t1''), (''priority'', JStr ''high'')])]) \<and>
   queue_list (files (snd (create_task ''t1'' ''t2''
       \<lparr>task_feature_id = ''F1'', description = Some ''text'', priority = Some ''high''\<rparr>
       example_world)))
     = Some (example_queue @
             [JObj [(''feature_id'', JStr ''F1''), (''status'', JStr ''pending''),
                    (''created_at'', JStr ''t1''), (''priority'', JStr ''high'')]])"
proof -
  let ?task = "\<lparr>task_feature_id = ''F1'', description = Some ''text'', priority = Some ''high''\<rparr>"
  have c: "catalog_features (files example_world)
     = Some [JObj [(''id'', JStr ''F1'')], JObj [(''id'', JStr ''F2'')]]"
    by (simp add: example_world_def example_files_def catalog_features_def)
  have i: "JStr (task_feature_id ?task)
     \<in> id_of ` set [JObj [(''id'', JStr ''F1'')], JObj [(''id'', JStr ''F2'')]]"
    by (simp add: dict_get_def)
  have q: "queue_list (files example_world) = Some example_queue"
    by (simp add: example_world_def example_files_def queue_list_def)
  have l: "load_json_file ''codex-task-queue.json'' (files example_world)
     = JObj [(''queue'', JArr example_queue)]"
    by (simp add: example_world_def example_files_def load_json_file_def)
  note ok = create_task_found [OF c i q l, of "''t1''" "''t2''"]
  have d: "create_task ''t1'' ''t2'' (?task\<lparr>description := None\<rparr>) example_world
      = create_task ''t1'' ''t2'' ?task example_world"
    using created_task_fields [where ?t1.0 = "''t1''" and ?t2.0 = "''t2''" and task = ?task
        and d = None and w = example_world] by blast
  have "\<exists>fields q ts.
          JObj [(''status'', JStr ''created''), (''task'', new_task_of ''t1'' ?task)]
            = JObj [(''status'', JStr ''created''), (''task'', JObj fields)] \<and>
          map fst fields = [''feature_id'', ''status'', ''created_at'', ''priority''] \<and>
          files (snd (create_task ''t1'' ''t2'' ?task example_world)) ''codex-task-queue.json''
            = Some (JObj q) \<and>
          map_of q ''queue'' = Some (JArr (ts @ [JObj fields]))"
    using created_task_fields [where ?t1.0 = "''t1''" and ?t2.0 = "''t2''" and task = ?task
        and d = None and w = example_world
        and r = "JObj [(''status'', JStr ''created''), (''task'', new_task_of ''t1'' ?task)]"
        and w' = "snd (create_task ''t1'' ''t2'' ?task example_world)"] ok
    by simp
  then show ?thesis
    using d by (simp add: ok queue_list_def new_task_of_def opt_str_def)
qed

text \<open>
  C10. When the queue file is absent, loading it gives the empty dict, and
  \<open>create_task\<close> for a feature id listed by a well-formed catalog succeeds: it
  creates the \<^verbatim>\<open>queue\<close> key and saves a document whose queue holds exactly the new
  task.
\<close>

theorem create_task_missing_queue_file:
  assumes "files w ''codex-task-queue.json'' = None"
      and "catalog_features (files w) = Some fs"
      and "JStr (task_feature_id task) \<in> id_of ` set fs"
  shows "load_json_file ''codex-task-queue.json'' (files w) = JObj [] \<and>
         create_task t1 t2 task w =
           (Inr (JObj [(''status'', JStr ''created''), (''task'', new_task_of t1 task)]),
            w\<lparr>files := (files w)(''codex-task-queue.json'' \<mapsto>
                          JObj [(''queue'', JArr [new_task_of t1 task])]),
              agent := add_audit_log t2 ''task_created''
                         [(''feature_id'', JStr (task_feature_id task))] (agent w)\<rparr>)"
proof -
  have l: "load_json_file ''codex-task-queue.json'' (files w) = JObj []"
    using assms(1) by (simp add: load_json_file_def)
  have q: "queue_list (files w) = Some []"
    using assms(1) by (simp add: queue_list_def)
  show ?thesis
    using create_task_found [OF assms(2) assms(3) q l, of t1 t2] l by simp
qed


theorem create_task_missing_queue_file_witness:
  "files example_world_no_queue ''codex-task-queue.json'' = None \<and>
   catalog_features (files example_world_no_queue)
     = Some [JObj [(''id'', JStr ''F1'')], JObj [(''id'', JStr ''F2'')]] \<and>
   load_json_file ''codex-task-queue.json'' (files example_world_no_queue) = JObj [] \<and>
   fst (create_task ''t1'' ''t2''
       \<lparr>task_feature_id = ''F1'', description = None, priority = Some ''normal''\<rparr>
       example_world_no_queue)
     = Inr (JObj [(''status'', JStr ''created''),
                  (''task'', JObj [(''feature_id'', JStr ''F1''), (''status'', JStr ''pending''),
                                   (''created_at'', JStr ''t1''), (''priority'', JStr ''normal'')])]) \<and>
   files (snd (create_task ''t1'' ''t2''
       \<lparr>task_feature_id = ''F1'', description = None, priority = Some ''normal''\<rparr>
       example_world_no_queue)) ''codex-task-queue.json''
     = Some (JObj [(''queue'', JArr
                  [JObj [(''feature_id'', JStr ''F1''), (''status'', JStr ''pending''),
                         (''created_at'', JStr ''t1''), (''priority'', JStr ''normal'')]])])"
proof -
  let ?task = "\<lparr>task_feature_id = ''F1'', description = None, priority = Some ''normal''\<rparr>"
  have a: "files example_world_no_queue ''codex-task-queue.json'' = None"
    by (simp add: example_world_no_queue_def)
  have c: "catalog_features (files example_world_no_queue)
     = Some [JObj [(''id'', JStr ''F1'')], JObj [(''id'', JStr ''F2'')]]"
    by (simp add: example_world_no_queue_def example_world_def example_files_def
        catalog_features_def)
  have i: "JStr (task_feature_id ?task)
     \<in> id_of ` set [JObj [(''id'', JStr ''F1'')], JObj [(''id'', JStr ''F2'')]]"
    by (simp add: dict_get_def)
  show ?thesis
    using create_task_missing_queue_file [OF a c i, of "''t1''" "''t2''"] a c
    by (simp add: new_task_of_def opt_str_def)
qed

section \<open>Task update\<close>

lemma update_loop_none:
  "all_dicts ts \<Longrightarrow> JStr fid \<notin> feature_id_of ` set ts \<Longrightarrow> update_loop fid st now ts = Inr None"
  by (induction ts rule: all_dicts.induct) auto

lemma update_loop_first:
  "all_dicts pre \<Longrightarrow> JStr fid \<notin> feature_id_of ` set pre \<Longrightarrow>
   dict_get d ''feature_id'' = JStr fid \<Longrightarrow>
   update_loop fid st now (pre @ JObj d # post) =
     Inr (Some (pre @ JObj (set_status st now d) # post, dict_get d ''status'',
                JObj (set_status st now d)))"
  by (induction pre rule: all_dicts.induct) auto

lemma update_task_not_found:
  assumes "queue_list (files w) = Some ts" and "all_dicts ts"
      and "JStr fid \<notin> feature_id_of ` set ts"
  shows "update_task t1 t2 fid u w = (Inl (HTTPException 404 ''Task not found''), w)"
  using assms
  by (auto simp: update_task_def queue_list_def load_json_file_def py_get_list_def
        py_iter_def update_loop_none Let_def
      split: option.splits json.splits)

lemma update_task_found:
  assumes "queue_list (files w) = Some (pre @ JObj d # post)"
      and "all_dicts pre"
      and "JStr fid \<notin> feature_id_of ` set pre"
      and "dict_get d ''feature_id'' = JStr fid"
      and "load_json_file ''codex-task-queue.json'' (files w) = JObj q"
  shows "update_task t1 t2 fid u w =
           (Inr (JObj [(''status'', JStr ''updated''),
                       (''task'', JObj (set_status (new_status u) t1 d))]),
            w\<lparr>files := (files w)(''codex-task-queue.json'' \<mapsto>
                 JObj (AList.update ''queue''
                         (JArr (pre @ JObj (set_status (new_status u) t1 d) # post)) q)),
              agent := add_audit_log t2 ''task_updated''
                         [(''feature_id'', JStr fid),
                          (''old_status'', dict_get d ''status''),
                          (''new_status'', JStr (new_status u))] (agent w)\<rparr>)"
  using assms
  by (auto simp: update_task_def queue_list_def load_json_file_def py_get_list_def
        py_iter_def update_loop_first Let_def save_json_file_def
      split: option.splits json.splits)

lemma set_status_fields:
  "dict_get (set_status st now d) ''status'' = JStr st"
  "dict_get (set_status st now d) ''updated_at'' = JStr now"
  "k \<noteq> ''status'' \<Longrightarrow> k \<noteq> ''updated_at'' \<Longrightarrow> dict_get (set_status st now d) k = dict_get d k"
  by (simp_all add: set_status_def dict_get_def update_conv')

text \<open>
  C6. With a well-formed queue document: \<open>update_task\<close> for a feature id that no
  task of the queue carries raises the 404 \<^verbatim>\<open>Task not found\<close> and leaves the world,
  hence the persisted document, as it was (nothing is written). When a task matches,
  only the first matching task changes: its status becomes the new status, its
  \<^verbatim>\<open>updated_at\<close> the current timestamp, its other keys and every other task stay as
  they were, and the document is saved.
\<close>

theorem update_task_first_match:
  "(queue_list (files w) = Some ts \<and> all_dicts ts \<and> JStr fid \<notin> feature_id_of ` set ts \<longrightarrow>
      update_task t1 t2 fid u w = (Inl (HTTPException 404 ''Task not found''), w)) \<and>
   (queue_list (files w) = Some (pre @ JObj d # post) \<and> all_dicts pre \<and>
    JStr fid \<notin> feature_id_of ` set pre \<and> dict_get d ''feature_id'' = JStr fid \<and>
    load_json_file ''codex-task-queue.json'' (files w) = JObj q \<longrightarrow>
      update_task t1 t2 fid u w =
        (Inr (JObj [(''status'', JStr ''updated''),
                    (''task'', JObj (set_status (new_status u) t1 d))]),
         w\<lparr>files := (files w)(''codex-task-queue.json'' \<mapsto>
                JObj (AList.update ''queue''
                        (JArr (pre @ JObj (set_status (new_status u) t1 d) # post)) q)),
           agent := add_audit_log t2 ''task_updated''
                      [(''feature_id'', JStr fid),
                       (''old_status'', dict_get d ''status''),
                       (''new_status'', JStr (new_status u))] (agent w)\<rparr>) \<and>
      dict_get (set_status (new_status u) t1 d) ''status'' = JStr (new_status u) \<and>
      dict_get (set_status (new_status u) t1 d) ''updated_at'' = JStr t1 \<and>
      (\<forall>k. k \<noteq> ''status'' \<and> k \<noteq> ''updated_at'' \<longrightarrow>
            dict_get (set_status (new_status u) t1 d) k = dict_get d k))"
  by (simp add: update_task_not_found update_task_found set_status_fields)

theorem update_task_first_match_witness:
  "queue_list (files example_world) = Some example_queue \<and>
   all_dicts example_queue \<and> JStr ''F9'' \<notin> feature_id_of ` set example_queue \<and>
   update_task ''t1'' ''t2'' ''F9'' \<lparr>new_status = ''done''\<rparr> example_world
     = (Inl (HTTPException 404 ''Task not found''), example_world) \<and>
   fst (update_task ''t1'' ''t2'' ''F2'' \<lparr>new_status = ''done''\<rparr> example_world)
     = Inr (JObj [(''status'', JStr ''updated''),
                  (''task'', JObj [(''feature_id'', JStr ''F2''), (''status'', JStr ''done''),
                                   (''updated_at'', JStr ''t1'')])]) \<and>
   queue_list (files (snd (update_task ''t1'' ''t2'' ''F2'' \<lparr>new_status = ''done''\<rparr> example_world)))
     = Some [JObj [(''feature_id'', JStr ''F2''), (''status'', JStr ''done''),
                   (''updated_at'', JStr ''t1'')],
             JObj [(''feature_id'', JStr ''F2''), (''status'', JStr ''pending'')]]"
proof -
  have q: "queue_list (files example_world) = Some example_queue"
    by (simp add: example_world_def example_files_def queue_list_def)
  have l: "load_json_file ''codex-task-queue.json'' (files example_world)
     = JObj [(''queue'', JArr example_queue)]"
    by (simp add: example_world_def example_files_def load_json_file_def)
  have e: "example_queue = [] @ JObj [(''feature_id'', JStr ''F2''), (''status'', JStr ''pending'')]
              # [JObj [(''feature_id'', JStr ''F2''), (''status'', JStr ''pending'')]]"
    by (simp add: example_queue_def)
  have n: "all_dicts example_queue \<and> JStr ''F9'' \<notin> feature_id_of ` set example_queue"
    by (simp add: example_queue_def dict_get_def)
  have a: "update_task ''t1'' ''t2'' ''F9'' \<lparr>new_status = ''done''\<rparr> example_world
     = (Inl (HTTPException 404 ''Task not found''), example_world)"
    using update_task_first_match [where w = example_world and ts = example_queue
        and fid = "''F9''"] q n by simp
  have b: "update_task ''t1'' ''t2'' ''F2'' \<lparr>new_status = ''done''\<rparr> example_world
     = (Inr (JObj [(''status'', JStr ''updated''),
                    (''task'', JObj (set_status ''done'' ''t1''
                        [(''feature_id'', JStr ''F2''), (''status'', JStr ''pending'')]))]),
         example_world\<lparr>files := (files example_world)(''codex-task-queue.json'' \<mapsto>
                JObj (AList.update ''queue''
                        (JArr ([] @ JObj (set_status ''done'' ''t1''
                                  [(''feature_id'', JStr ''F2''), (''status'', JStr ''pending'')])
                               # [JObj [(''feature_id'', JStr ''F2''), (''status'', JStr ''pending'')]]))
                        [(''queue'', JArr example_queue)])),
           agent := add_audit_log ''t2'' ''task_updated''
                      [(''feature_id'', JStr ''F2''),
                       (''old_status'', dict_get [(''feature_id'', JStr ''F2''), (''status'', JStr ''pending'')] ''status''),
                       (''new_status'', JStr ''done'')] (agent example_world)\<rparr>)"
    using update_task_first_match [where w = example_world and fid = "''F2''" and pre = "[]"
        and d = "[(''feature_id'', JStr ''F2''), (''status'', JStr ''pending'')]"
        and post = "[JObj [(''feature_id'', JStr ''F2''), (''status'', JStr ''pending'')]]"
        and q = "[(''queue'', JArr example_queue)]" and ?t1.0 = "''t1''" and ?t2.0 = "''t2''"
        and u = "\<lparr>new_status = ''done''\<rparr>"]
      q l e
    by (simp add: dict_get_def)
  show ?thesis
    using q n by (simp add: a b set_status_def queue_list_def)
qed

section \<open>Delivery to a subscriber\<close>

lemma step_uncalled:
  "c = Inr Function \<or> c = Inl TypeError \<Longrightarrow>
   snd (step e (buf, c)) = Inr Function \<or> snd (step e (buf, c)) = Inl TypeError"
  by (cases e) (auto simp: iterate_def)

lemma run_uncalled:
  "c = Inr Function \<or> c = Inl TypeError \<Longrightarrow>
   snd (run es (buf, c)) = Inr Function \<or> snd (run es (buf, c)) = Inl TypeError"
proof (induction es arbitrary: buf c)
  case Nil
  then show ?case by simp
next
  case (Cons e es)
  obtain buf' c' where s: "step e (buf, c) = (buf', c')"
    by (cases "step e (buf, c)")
  with step_uncalled [OF Cons.prems, of e buf]
  have "c' = Inr Function \<or> c' = Inl TypeError" by simp
  from Cons.IH [OF this, of buf'] s show ?case by simp
qed

text \<open>
  Whatever is published and however often the response is driven, a subscriber of
  \<open>stream_logs\<close> is sent no frame: the body of \<^verbatim>\<open>event_generator\<close> never runs.
\<close>

lemma stream_logs_never_sends: "received (snd (run es (buf, Inr stream_logs))) = []"
  using run_uncalled [of "Inr stream_logs" es buf]
  by (auto simp: stream_logs_def)

text \<open>
  C1. A subscriber that connects to \<open>stream_logs\<close> while the buffer is empty, after
  which the lines \<^verbatim>\<open>a\<close> and \<^verbatim>\<open>b\<close> are published: the first iteration of the
  response raises \<^verbatim>\<open>TypeError\<close> and the subscriber is sent nothing, where every
  published line should reach it in publish order.
\<close>

theorem stream_logs_sends_nothing:
  "run [Resume, Publish ''a'', Resume, Publish ''b'', Resume] ([], Inr stream_logs)
     = ([''a'', ''b''], Inl TypeError) \<and>
   received (snd (run [Resume, Publish ''a'', Resume, Publish ''b'', Resume]
                    ([], Inr stream_logs))) = []"
  by (simp add: stream_logs_def iterate_def publish_def)

text \<open>
  The body of \<^verbatim>\<open>event_generator\<close>, had the call been made: its cursor starts at 0
  whatever the buffer holds, so a generator created when one line has already been
  published yields that line.
\<close>

lemma called_generator_replays_backlog:
  "last_idx (resume [''old''] event_generator_init) = 0 \<and>
   received (snd (run [Resume, Resume] ([''old''], Inr (AsyncGenerator event_generator_init))))
     = [frame ''old'']"
  by (simp add: iterate_def event_generator_init_def resume_def loop_top_def yield_at_def)

text \<open>
  And a line published while the generator is suspended at the \<^verbatim>\<open>yield\<close> of the last
  line of its range is never yielded, because \<^verbatim>\<open>last_idx\<close> is set to the length the
  buffer has after the loop.
\<close>

lemma publish_during_yield_is_skipped:
  "run [Resume, Publish ''b'', Resume, Resume, Resume]
       ([''a''], Inr (AsyncGenerator event_generator_init))
     = ([''a'', ''b''],
        Inr (AsyncGenerator \<lparr>last_idx = 2, pc = Sleeping, sent = [frame ''a'']\<rparr>))"
  by (simp add: iterate_def event_generator_init_def resume_def loop_top_def yield_at_def
      publish_def)

section \<open>Overlapping task creation\<close>

lemma queue_list_load:
  "queue_list d = Some ts \<Longrightarrow> \<exists>q. load_json_file ''codex-task-queue.json'' d = JObj q"
  by (auto simp: queue_list_def load_json_file_def split: option.splits json.splits)

lemma catalog_features_other_file:
  "catalog_features (d(''codex-task-queue.json'' \<mapsto> x)) = catalog_features d"
  by (simp add: catalog_features_def)

lemma create_task_step:
  assumes "catalog_features (files w) = Some fs"
      and "JStr (task_feature_id task) \<in> id_of ` set fs"
      and "queue_list (files w) = Some ts"
  shows "catalog_features (files (snd (create_task t1 t2 task w))) = Some fs \<and>
         queue_list (files (snd (create_task t1 t2 task w))) = Some (ts @ [new_task_of t1 task])"
proof -
  obtain q where "load_json_file ''codex-task-queue.json'' (files w) = JObj q"
    using queue_list_load [OF assms(3)] by blast
  from create_task_found [OF assms this, of t1 t2] show ?thesis
    by (simp add: catalog_features_other_file queue_list_saved assms(1))
qed

lemma create_tasks_in_sequence:
  "catalog_features (files w) = Some fs \<Longrightarrow> queue_list (files w) = Some ts \<Longrightarrow>
   requested_id ` set cs \<subseteq> id_of ` set fs \<Longrightarrow>
   queue_list (files (create_tasks cs w)) = Some (ts @ map created_of cs)"
proof (induction cs arbitrary: w ts)
  case Nil
  then show ?case by simp
next
  case (Cons c cs)
  obtain t1 t2 task where c: "c = (t1, t2, task)"
    by (cases c) auto
  have i: "JStr (task_feature_id task) \<in> id_of ` set fs"
    using Cons.prems(3) by (auto simp: c requested_id_def)
  note s = create_task_step [OF Cons.prems(1) i Cons.prems(2), of t1 t2]
  have "queue_list (files (create_tasks cs (snd (create_task t1 t2 task w))))
      = Some ((ts @ [new_task_of t1 task]) @ map created_of cs)"
    using Cons.prems(3) s by (intro Cons.IH) auto
  then show ?case by (simp add: c created_of_def)
qed

lemma create_task_response:
  assumes "catalog_features (files w) = Some fs"
      and "JStr (task_feature_id task) \<in> id_of ` set fs"
      and "queue_list (files w) = Some ts"
  shows "fst (create_task t1 t2 task w)
           = Inr (JObj [(''status'', JStr ''created''), (''task'', new_task_of t1 task)])"
proof -
  obtain q where "load_json_file ''codex-task-queue.json'' (files w) = JObj q"
    using queue_list_load [OF assms(3)] by blast
  from create_task_found [OF assms this, of t1 t2] show ?thesis by simp
qed

lemma responses_in_sequence:
  "catalog_features (files w) = Some fs \<Longrightarrow> queue_list (files w) = Some ts \<Longrightarrow>
   requested_id ` set cs \<subseteq> id_of ` set fs \<Longrightarrow>
   responses cs w = map created_response cs"
proof (induction cs arbitrary: w ts)
  case Nil
  then show ?case by simp
next
  case (Cons c cs)
  obtain t1 t2 task where c: "c = (t1, t2, task)"
    by (cases c) auto
  have i: "JStr (task_feature_id task) \<in> id_of ` set fs"
    using Cons.prems(3) by (auto simp: c requested_id_def)
  note s = create_task_step [OF Cons.prems(1) i Cons.prems(2), of t1 t2]
  have "responses cs (snd (create_task t1 t2 task w)) = map created_response cs"
    using Cons.prems(3) s by (intro Cons.IH) auto
  then show ?case
    by (simp add: c created_response_def created_of_def
        create_task_response [OF Cons.prems(1) i Cons.prems(2)])
qed

text \<open>
  C8. For every set of overlapping calls of \<open>create_task\<close> for feature ids that a
  well-formed catalog lists, and every order in which the event loop serves them: every
  call succeeds and returns its task, the saved queue is the old queue followed by the
  task of each call, so no update is lost, and the queue grows by exactly the number of
  calls.
\<close>

theorem concurrent_create_tasks_lose_nothing:
  assumes "catalog_features (files w) = Some fs"
      and "queue_list (files w) = Some ts"
      and "requested_id ` set cs \<subseteq> id_of ` set fs"
      and "mset order = mset cs"
  shows "responses order w = map created_response order \<and>
         queue_list (files (create_tasks order w)) = Some (ts @ map created_of order) \<and>
         mset (map created_of order) = mset (map created_of cs) \<and>
         length (ts @ map created_of order) = length ts + length cs"
proof -
  have s: "requested_id ` set order \<subseteq> id_of ` set fs"
    using assms(3) mset_eq_setD [OF assms(4)] by simp
  have "responses order w = map created_response order"
    using assms(1,2) s by (rule responses_in_sequence)
  moreover have "queue_list (files (create_tasks order w)) = Some (ts @ map created_of order)"
    using assms(1,2) s by (rule create_tasks_in_sequence)
  moreover have "mset (map created_of order) = mset (map created_of cs)"
    using assms(4) by simp
  moreover have "length order = length cs"
    using assms(4) by (rule mset_eq_length)
  ultimately show ?thesis by simp
qed

theorem concurrent_create_tasks_lose_nothing_witness:
  "catalog_features (files example_world_no_queue)
     = Some [JObj [(''id'', JStr ''F1'')], JObj [(''id'', JStr ''F2'')]] \<and>
   queue_list (files example_world_no_queue) = Some [] \<and>
   requested_id ` set example_calls
     \<subseteq> id_of ` set [JObj [(''id'', JStr ''F1'')], JObj [(''id'', JStr ''F2'')]] \<and>
   mset (rev example_calls) = mset example_calls \<and>
   responses (rev example_calls) example_world_no_queue
     = map created_response (rev example_calls) \<and>
   queue_list (files (create_tasks (rev example_calls) example_world_no_queue))
     = Some [JObj [(''feature_id'', JStr ''F2''), (''status'', JStr ''pending''),
                   (''created_at'', JStr ''t3''), (''priority'', JStr ''high'')],
             JObj [(''feature_id'', JStr ''F1''), (''status'', JStr ''pending''),
                   (''created_at'', JStr ''t1''), (''priority'', JStr ''normal'')]]"
proof -
  have c: "catalog_features (files example_world_no_queue)
     = Some [JObj [(''id'', JStr ''F1'')], JObj [(''id'', JStr ''F2'')]]"
    by (simp add: example_world_no_queue_def example_world_def example_files_def
        catalog_features_def)
  have q: "queue_list (files example_world_no_queue) = Some []"
    by (simp add: example_world_no_queue_def queue_list_def)
  have i: "requested_id ` set example_calls
     \<subseteq> id_of ` set [JObj [(''id'', JStr ''F1'')], JObj [(''id'', JStr ''F2'')]]"
    by (simp add: example_calls_def requested_id_def dict_get_def)
  have m: "mset (rev example_calls) = mset example_calls"
    by simp
  show ?thesis
    using concurrent_create_tasks_lose_nothing [OF c q i m] c q i
    by (simp add: example_calls_def created_of_def new_task_of_def opt_str_def)
qed

section \<open>The handlers when the file system refuses a file\<close>

text \<open>
  As long as the files that exist may be read, the handlers with fallible loads and
  saves do what \<open>create_task\<close> and \<open>update_task\<close> do, except that a call that
  would have saved raises \<^verbatim>\<open>OSError\<close> instead when the queue file may not be
  written, and then changes nothing.
\<close>

lemma load_json_file_io_readable:
  "readable may_open d f \<Longrightarrow> load_json_file_io may_open f d = Inr (load_json_file f d)"
  by (auto simp: readable_def load_json_file_io_def load_json_file_def split: option.splits)

lemma load_json_file_io_refused:
  "d f = Some x \<Longrightarrow> \<not> may_open Reading f \<Longrightarrow> load_json_file_io may_open f d = Inl OSError"
  by (simp add: load_json_file_io_def)

lemma create_task_io_eq:
  assumes "readable may_open (files w) ''codex-task-queue.json''"
      and "readable may_open (files w) ''codex-features.json''"
  shows "create_task_io may_open t1 t2 task w =
           (if may_open Writing ''codex-task-queue.json'' then create_task t1 t2 task w
            else (case fst (create_task t1 t2 task w) of
                    Inl e \<Rightarrow> create_task t1 t2 task w
                  | Inr r \<Rightarrow> (Inl OSError, w)))"
  by (simp add: create_task_io_def create_task_def load_json_file_io_readable [OF assms(1)]
      load_json_file_io_readable [OF assms(2)] save_json_file_io_def save_json_file_def Let_def
      split: sum.splits json.splits)

lemma update_task_io_eq:
  assumes "readable may_open (files w) ''codex-task-queue.json''"
  shows "update_task_io may_open t1 t2 fid u w =
           (if may_open Writing ''codex-task-queue.json'' then update_task t1 t2 fid u w
            else (case fst (update_task t1 t2 fid u w) of
                    Inl e \<Rightarrow> update_task t1 t2 fid u w
                  | Inr r \<Rightarrow> (Inl OSError, w)))"
  by (simp add: update_task_io_def update_task_def load_json_file_io_readable [OF assms]
      save_json_file_io_def save_json_file_def Let_def
      split: sum.splits json.splits option.splits prod.splits)

lemma create_task_io_permitted:
  "create_task_io (\<lambda>m f. True) t1 t2 task w = create_task t1 t2 task w"
  by (simp add: create_task_io_eq readable_def)

lemma update_task_io_permitted:
  "update_task_io (\<lambda>m f. True) t1 t2 fid u w = update_task t1 t2 fid u w"
  by (simp add: update_task_io_eq readable_def)

lemma create_task_io_read_refused:
  assumes "files w ''codex-task-queue.json'' = Some x"
      and "\<not> may_open Reading ''codex-task-queue.json''"
  shows "create_task_io may_open t1 t2 task w = (Inl OSError, w)"
  using assms by (simp add: create_task_io_def load_json_file_io_def)

lemma create_task_io_not_found:
  assumes "readable may_open (files w) ''codex-task-queue.json''"
      and "readable may_open (files w) ''codex-features.json''"
      and "catalog_features (files w) = Some fs"
      and "JStr (task_feature_id task) \<notin> id_of ` set fs"
  shows "create_task_io may_open t1 t2 task w = (Inl (HTTPException 404 ''Feature not found''), w)"
  by (simp add: create_task_io_eq [OF assms(1,2)] create_task_not_found [OF assms(3,4)])

lemma create_task_io_write_refused:
  assumes "readable may_open (files w) ''codex-task-queue.json''"
      and "readable may_open (files w) ''codex-features.json''"
      and "catalog_features (files w) = Some fs"
      and "JStr (task_feature_id task) \<in> id_of ` set fs"
      and "queue_list (files w) = Some ts"
      and "\<not> may_open Writing ''codex-task-queue.json''"
  shows "create_task_io may_open t1 t2 task w = (Inl OSError, w)"
  by (simp add: create_task_io_eq [OF assms(1,2)] create_task_response [OF assms(3,4,5)] assms(6))

lemma update_task_io_not_found:
  assumes "readable may_open (files w) ''codex-task-queue.json''"
      and "queue_list (files w) = Some ts"
      and "all_dicts ts"
      and "JStr fid \<notin> feature_id_of ` set ts"
  shows "update_task_io may_open t1 t2 fid u w = (Inl (HTTPException 404 ''Task not found''), w)"
  by (simp add: update_task_io_eq [OF assms(1)] update_task_not_found [OF assms(2,3,4)])


lemma update_task_io_write_refused:
  assumes "readable may_open (files w) ''codex-task-queue.json''"
      and "queue_list (files w) = Some (pre @ JObj d # post)"
      and "all_dicts pre"
      and "JStr fid \<notin> feature_id_of ` set pre"
      and "dict_get d ''feature_id'' = JStr fid"
      and "\<not> may_open Writing ''codex-task-queue.json''"
  shows "update_task_io may_open t1 t2 fid u w = (Inl OSError, w)"
proof -
  obtain q where "load_json_file ''codex-task-queue.json'' (files w) = JObj q"
    using queue_list_load [OF assms(2)] by blast
  from update_task_found [OF assms(2,3,4,5) this, of t1 t2 u] show ?thesis
    by (simp add: update_task_io_eq [OF assms(1)] assms(6))
qed

section \<open>Reported failures\<close>

text \<open>
  C7, as the code has it. A rejected \<^verbatim>\<open>pause\<close> or \<^verbatim>\<open>resume\<close>, an unknown action,
  a task for an unlisted feature, an update of a missing task and a save that the file
  system refuses are each reported as a failure, and the five reports are pairwise
  different: the first four are \<^verbatim>\<open>HTTPException\<close>s that differ in the detail, while
  the first two share the status code 400 and the next two share 404; the last is the
  uncaught \<^verbatim>\<open>OSError\<close>.
\<close>

theorem reported_failures_differ:
  assumes "action c1 = ''pause'' \<and> status s1 \<noteq> ''running'' \<or>
           action c1 = ''resume'' \<and> status s1 \<noteq> ''paused''"
      and "action c2 \<notin> {''start'', ''pause'', ''resume'', ''stop''}"
      and "readable os3 (files w3) ''codex-task-queue.json''"
      and "readable os3 (files w3) ''codex-features.json''"
      and "catalog_features (files w3) = Some fs3"
      and "JStr (task_feature_id task3) \<notin> id_of ` set fs3"
      and "readable os4 (files w4) ''codex-task-queue.json''"
      and "queue_list (files w4) = Some ts4"
      and "all_dicts ts4"
      and "JStr fid \<notin> feature_id_of ` set ts4"
      and "readable os5 (files w5) ''codex-task-queue.json''"
      and "readable os5 (files w5) ''codex-features.json''"
      and "catalog_features (files w5) = Some fs5"
      and "JStr (task_feature_id task5) \<in> id_of ` set fs5"
      and "queue_list (files w5) = Some ts5"
      and "\<not> os5 Writing ''codex-task-queue.json''"
  shows "fst (control_agent t1 t2 c1 s1)
           \<in> {Inl (HTTPException 400 ''Agent not running''),
              Inl (HTTPException 400 ''Agent not paused'')} \<and>
         fst (control_agent t3 t4 c2 s2) = Inl (HTTPException 400 ''Invalid action'') \<and>
         fst (create_task_io os3 t5 t6 task3 w3) = Inl (HTTPException 404 ''Feature not found'') \<and>
         fst (update_task_io os4 t7 t8 fid u w4) = Inl (HTTPException 404 ''Task not found'') \<and>
         fst (create_task_io os5 t9 t10 task5 w5) = Inl OSError \<and>
         distinct [fst (control_agent t1 t2 c1 s1), fst (control_agent t3 t4 c2 s2),
                   fst (create_task_io os3 t5 t6 task3 w3),
                   fst (update_task_io os4 t7 t8 fid u w4),
                   fst (create_task_io os5 t9 t10 task5 w5)]"
proof -
  have a: "fst (control_agent t1 t2 c1 s1)
           \<in> {Inl (HTTPException 400 ''Agent not running''),
              Inl (HTTPException 400 ''Agent not paused'')}"
    using assms(1)
    by (auto simp: control_agent_pause_rejected control_agent_resume_rejected)
  have b: "fst (control_agent t3 t4 c2 s2) = Inl (HTTPException 400 ''Invalid action'')"
    using assms(2) by (simp add: control_agent_unknown_action)
  have c: "fst (create_task_io os3 t5 t6 task3 w3) = Inl (HTTPException 404 ''Feature not found'')"
    by (simp add: create_task_io_not_found [OF assms(3,4,5,6)])
  have d: "fst (update_task_io os4 t7 t8 fid u w4) = Inl (HTTPException 404 ''Task not found'')"
    by (simp add: update_task_io_not_found [OF assms(7,8,9,10)])
  have e: "fst (create_task_io os5 t9 t10 task5 w5) = Inl OSError"
    by (simp add: create_task_io_write_refused [OF assms(11,12,13,14,15,16)])
  from a b c d e show ?thesis by auto
qed

theorem reported_failures_differ_witness:
  "readable (\<lambda>m f. m = Reading) (files example_world) ''codex-task-queue.json'' \<and>
   \<not> (\<lambda>m f. m = Reading) Writing ''codex-task-queue.json'' \<and>
   fst (create_task_io (\<lambda>m f. m = Reading) ''t1'' ''t2''
          \<lparr>task_feature_id = ''F1'', description = None, priority = None\<rparr> example_world)
     = Inl OSError \<and>
   distinct
     [fst (control_agent ''t1'' ''t2'' \<lparr>action = ''pause'', role = None, feature_id = None\<rparr>
             initial_agent_state),
      fst (control_agent ''t1'' ''t2'' \<lparr>action = ''fly'', role = None, feature_id = None\<rparr>
             initial_agent_state),
      fst (create_task_io (\<lambda>m f. True) ''t1'' ''t2''
             \<lparr>task_feature_id = ''F9'', description = None, priority = None\<rparr> example_world),
      fst (update_task_io (\<lambda>m f. True) ''t1'' ''t2'' ''F9'' \<lparr>new_status = ''done''\<rparr>
             example_world),
      fst (create_task_io (\<lambda>m f. m = Reading) ''t1'' ''t2''
             \<lparr>task_feature_id = ''F1'', description = None, priority = None\<rparr> example_world)]"
proof -
  have h1: "action \<lparr>action = ''pause'', role = None, feature_id = None\<rparr> = ''pause'' \<and>
            status initial_agent_state \<noteq> ''running'' \<or>
            action \<lparr>action = ''pause'', role = None, feature_id = None\<rparr> = ''resume'' \<and>
            status initial_agent_state \<noteq> ''paused''"
    by (simp add: initial_agent_state_def)
  have h2: "action \<lparr>action = ''fly'', role = None, feature_id = None\<rparr>
              \<notin> {''start'', ''pause'', ''resume'', ''stop''}"
    by simp
  have r3: "readable (\<lambda>m f. True) (files example_world) ''codex-task-queue.json''"
           "readable (\<lambda>m f. True) (files example_world) ''codex-features.json''"
    by (simp_all add: readable_def)
  have r5: "readable (\<lambda>m f. m = Reading) (files example_world) ''codex-task-queue.json''"
           "readable (\<lambda>m f. m = Reading) (files example_world) ''codex-features.json''"
    by (simp_all add: readable_def)
  have h3: "catalog_features (files example_world)
     = Some [JObj [(''id'', JStr ''F1'')], JObj [(''id'', JStr ''F2'')]]"
    by (simp add: example_world_def example_files_def catalog_features_def)
  have h4: "JStr (task_feature_id \<lparr>task_feature_id = ''F9'', description = None, priority = None\<rparr>)
     \<notin> id_of ` set [JObj [(''id'', JStr ''F1'')], JObj [(''id'', JStr ''F2'')]]"
    by (simp add: dict_get_def)
  have h5: "queue_list (files example_world) = Some example_queue"
    by (simp add: example_world_def example_files_def queue_list_def)
  have h6: "all_dicts example_queue"
    by (simp add: example_queue_def)
  have h7: "JStr ''F9'' \<notin> feature_id_of ` set example_queue"
    by (simp add: example_queue_def dict_get_def)
  have h8: "JStr (task_feature_id \<lparr>task_feature_id = ''F1'', description = None, priority = None\<rparr>)
     \<in> id_of ` set [JObj [(''id'', JStr ''F1'')], JObj [(''id'', JStr ''F2'')]]"
    by (simp add: dict_get_def)
  have h9: "\<not> (\<lambda>m f. m = Reading) Writing ''codex-task-queue.json''"
    by simp
  show ?thesis
    using reported_failures_differ [OF h1 h2 r3 h3 h4 r3(1) h5 h6 h7 r5 h3 h8 h5 h9,
        where ?t1.0 = "''t1''" and ?t2.0 = "''t2''" and ?t3.0 = "''t1''" and ?t4.0 = "''t2''"
          and ?s2.0 = initial_agent_state and ?t5.0 = "''t1''" and ?t6.0 = "''t2''"
          and ?t7.0 = "''t1''" and ?t8.0 = "''t2''" and u = "\<lparr>new_status = ''done''\<rparr>"
          and ?t9.0 = "''t1''" and ?t10.0 = "''t2''"] r5(1)
    by auto
qed

text \<open>
  The status code alone does not tell a rejected \<^verbatim>\<open>pause\<close> from an unknown action:
  both are 400.
\<close>

theorem status_codes_shared:
  "fst (control_agent ''t1'' ''t2'' \<lparr>action = ''pause'', role = None, feature_id = None\<rparr>
         initial_agent_state)
     = Inl (HTTPException 400 ''Agent not running'') \<and>
   fst (control_agent ''t1'' ''t2'' \<lparr>action = ''fly'', role = None, feature_id = None\<rparr>
         initial_agent_state)
     = Inl (HTTPException 400 ''Invalid action'') \<and>
   status_code (HTTPException 400 ''Agent not running'')
     = status_code (HTTPException 400 ''Invalid action'')"
  by (simp add: control_agent_def initial_agent_state_def)

end
